theory Spec2Isabelle
  imports Main "HOL-Library.AList" "HOL-Library.Word"
begin

section \<open>The credential and session store of \<open>auth.py\<close>\<close>

text \<open>
  \<open>AuthManager\<close> keeps two JSON files, \<open>users.json\<close> and \<open>sessions.json\<close>. Every
  operation loads a whole file into a Python dict, changes the dict and writes it back.
  The model passes the two files explicitly: each operation takes the store and returns
  its result together with the store it leaves behind.

  What comes from outside the module is a parameter of the operation that reads it:
  \<^item> the digests of \<open>hashlib\<close>: \<open>sha256\<close> yields 256 bits, \<open>md5\<close> 128 bits; both are
    arbitrary functions from the text to a word of that width, and \<open>hexdigest\<close> is
    written out;
  \<^item> every call of \<open>datetime.now()\<close>: a reading of the clock, one parameter per call, in
    the order of the calls;
  \<^item> the value drawn by \<open>uuid.uuid4()\<close>: 128 bits;
  \<^item> \<open>str.title\<close>, which follows the Unicode character tables: an arbitrary function from
    text to text.

  A text is a \<open>string\<close>, the bytes of its UTF-8 encoding: the operations test texts for
  equality and emptiness only, and hand them to the functions above. \<open>upper\<close> is applied to
  hexadecimal digits only, where the ASCII mapping is the whole of it.
  Timestamps are kept as instants rather than as their ISO texts:
  \<open>isoformat\<close> followed by \<open>fromisoformat\<close> gives the same naive datetime back.
  Readings are taken to lie more than a day before \<open>datetime.max\<close>, so that adding the
  time to live does not overflow.
\<close>

subsection \<open>Clock readings\<close>

text \<open>
  A naive datetime: \<open>instant\<close> is its place on the time line in microseconds, which is what
  comparison and \<open>timedelta\<close> arithmetic see; the calendar fields are what \<open>strftime\<close> sees.
\<close>

record datetime =
  instant :: int
  year :: nat
  month :: nat
  day :: nat

definition hours :: "int \<Rightarrow> int" where
  "hours h = h * 3600000000"

subsection \<open>Text helpers\<close>

definition hex_digit :: "nat \<Rightarrow> char" where
  "hex_digit d = ''0123456789abcdef'' ! d"

fun hex_str :: "nat \<Rightarrow> nat \<Rightarrow> string" where
  "hex_str 0 v = []"
| "hex_str (Suc n) v = hex_str n (v div 16) @ [hex_digit (v mod 16)]"

definition hexdigest :: "'a::len word \<Rightarrow> string" where
  "hexdigest w = hex_str (LENGTH('a) div 4) (unat w)"

definition upper_char :: "char \<Rightarrow> char" where
  "upper_char c =
     (let n = (of_char c :: nat) in if 97 \<le> n \<and> n \<le> 122 then char_of (n - 32) else c)"

definition lower_char :: "char \<Rightarrow> char" where
  "lower_char c =
     (let n = (of_char c :: nat) in if 65 \<le> n \<and> n \<le> 90 then char_of (n + 32) else c)"

definition islower :: "char \<Rightarrow> bool" where
  "islower c = (97 \<le> (of_char c :: nat) \<and> (of_char c :: nat) \<le> 122)"

definition isupper :: "char \<Rightarrow> bool" where
  "isupper c = (65 \<le> (of_char c :: nat) \<and> (of_char c :: nat) \<le> 90)"

definition upper :: "string \<Rightarrow> string" where
  "upper s = map upper_char s"

text \<open>
  \<open>str.title\<close> on ASCII text: a letter that follows a letter is lowered, any other letter
  is raised. It stands for \<open>str.title\<close> in the concrete runs, whose names are ASCII.
\<close>

fun ascii_title_from :: "bool \<Rightarrow> string \<Rightarrow> string" where
  "ascii_title_from previous_is_cased [] = []"
| "ascii_title_from previous_is_cased (c # cs) =
     (if islower c then (if previous_is_cased then c else upper_char c) # ascii_title_from True cs
      else if isupper c then (if previous_is_cased then lower_char c else c) # ascii_title_from True cs
      else c # ascii_title_from False cs)"

definition ascii_title :: "string \<Rightarrow> string" where
  "ascii_title s = ascii_title_from False s"

definition dec_digit :: "nat \<Rightarrow> char" where
  "dec_digit d = ''0123456789'' ! d"

fun dec_str :: "nat \<Rightarrow> string" where
  "dec_str n = (if n < 10 then [dec_digit n] else dec_str (n div 10) @ [dec_digit (n mod 10)])"

definition pad2 :: "nat \<Rightarrow> string" where
  "pad2 n = (if n < 10 then CHR ''0'' # dec_str n else dec_str n)"

text \<open>
  \<open>strftime("%Y%m%d")\<close>: the month and the day are padded to two digits. The year is
  printed as the C library prints it, which pads no year below 1000.
\<close>

definition strftime_Ymd :: "datetime \<Rightarrow> string" where
  "strftime_Ymd t = dec_str (year t) @ pad2 (month t) @ pad2 (day t)"

text \<open>\<open>str(uuid)\<close>: the 32 hexadecimal digits in groups of 8, 4, 4, 4 and 12.\<close>

definition uuid_str :: "128 word \<Rightarrow> string" where
  "uuid_str u =
     (let h = hexdigest u
      in take 8 h @ ''-'' @ take 4 (drop 8 h) @ ''-'' @ take 4 (drop 12 h) @ ''-''
         @ take 4 (drop 16 h) @ ''-'' @ drop 20 h)"

subsection \<open>The two collections\<close>

record user =
  password :: string
  role :: string
  full_name :: string
  client_id :: string
  created_at :: int
  last_login :: int

record session =
  username :: string
  session_created_at :: int
  expires_at :: int

text \<open>
  A dict is the list of its items in insertion order; \<open>d[k] = v\<close> is \<open>AList.update\<close>,
  \<open>del d[k]\<close> is \<open>AList.delete\<close>, \<open>k in d\<close> and \<open>d.get(k)\<close> go through \<open>map_of\<close>.
  A file is missing, or it exists and cannot be read as JSON, or it holds a dict. Loading
  gives the empty dict in the first two cases; only a missing file is created at start-up.
\<close>

datatype 'a json_file = Missing | Unreadable | Holds 'a

type_synonym users = "(string \<times> user) list"
type_synonym sessions = "(string \<times> session) list"

record store =
  users_file :: "users json_file"
  sessions_file :: "sessions json_file"

definition load_users :: "store \<Rightarrow> users" where
  "load_users st = (case users_file st of Holds us \<Rightarrow> us | Missing \<Rightarrow> [] | Unreadable \<Rightarrow> [])"

definition save_users :: "users \<Rightarrow> store \<Rightarrow> store" where
  "save_users us st = st\<lparr>users_file := Holds us\<rparr>"

definition load_sessions :: "store \<Rightarrow> sessions" where
  "load_sessions st =
     (case sessions_file st of Holds ss \<Rightarrow> ss | Missing \<Rightarrow> [] | Unreadable \<Rightarrow> [])"

definition save_sessions :: "sessions \<Rightarrow> store \<Rightarrow> store" where
  "save_sessions ss st = st\<lparr>sessions_file := Holds ss\<rparr>"

definition ensure_files_exist :: "store \<Rightarrow> store" where
  "ensure_files_exist st =
     (let st1 = (if users_file st = Missing then save_users [] st else st)
      in if sessions_file st1 = Missing then save_sessions [] st1 else st1)"

subsection \<open>The operations\<close>

definition hash_password :: "(string \<Rightarrow> 256 word) \<Rightarrow> string \<Rightarrow> string" where
  "hash_password sha256 pw = hexdigest (sha256 pw)"

definition generate_client_id :: "(string \<Rightarrow> 128 word) \<Rightarrow> string \<Rightarrow> string \<Rightarrow> datetime \<Rightarrow> string" where
  "generate_client_id md5 uname rl now =
     (let timestamp = strftime_Ymd now;
          role_prefix = (if rl = ''investor'' then ''INV'' else ''IVE'');
          username_hash = upper (take 6 (hexdigest (md5 uname)))
      in role_prefix @ ''_'' @ username_hash @ ''_'' @ timestamp)"

definition create_session ::
  "store \<Rightarrow> string \<Rightarrow> 128 word \<Rightarrow> datetime \<Rightarrow> datetime \<Rightarrow> string \<times> store" where
  "create_session st uname uuid4 now1 now2 =
     (let session_id = uuid_str uuid4;
          sessions = load_sessions st;
          sessions' = AList.update session_id
            \<lparr>username = uname, session_created_at = instant now1,
             expires_at = instant now2 + hours 24\<rparr> sessions
      in (session_id, save_sessions sessions' st))"

definition register_user ::
  "(string \<Rightarrow> 256 word) \<Rightarrow> (string \<Rightarrow> 128 word) \<Rightarrow> (string \<Rightarrow> string) \<Rightarrow>
   store \<Rightarrow> string \<Rightarrow> string \<Rightarrow> string \<Rightarrow>
   datetime \<Rightarrow> datetime \<Rightarrow> datetime \<Rightarrow> 128 word \<Rightarrow> datetime \<Rightarrow> datetime \<Rightarrow>
   (bool \<times> string \<times> string) \<times> store" where
  "register_user sha256 md5 title st uname pw rl now_id now_created now_login uuid4 now1 now2 =
     (let users = load_users st
      in if map_of users uname \<noteq> None then ((False, ''Username already exists'', ''''), st)
         else if uname = [] \<or> pw = [] then
           ((False, ''Username and password are required'', ''''), st)
         else if rl \<notin> set [''investor'', ''investee''] then
           ((False, ''Invalid role selected'', ''''), st)
         else
           (let cid = generate_client_id md5 uname rl now_id;
                users' = AList.update uname
                  \<lparr>password = hash_password sha256 pw, role = rl, full_name = title uname,
                   client_id = cid, created_at = instant now_created,
                   last_login = instant now_login\<rparr> users;
                st1 = save_users users' st;
                (session_id, st2) = create_session st1 uname uuid4 now1 now2
            in ((True, ''User registered successfully! Client ID: '' @ cid, session_id), st2)))"

definition authenticate_user ::
  "(string \<Rightarrow> 256 word) \<Rightarrow> store \<Rightarrow> string \<Rightarrow> string \<Rightarrow> datetime \<Rightarrow> (bool \<times> user option) \<times> store" where
  "authenticate_user sha256 st uname pw now =
     (let users = load_users st
      in case map_of users uname of
           None \<Rightarrow> ((False, None), st)
         | Some u \<Rightarrow>
             if password u = hash_password sha256 pw then
               (let u' = u\<lparr>last_login := instant now\<rparr>
                in ((True, Some u'), save_users (AList.update uname u' users) st))
             else ((False, None), st))"

definition validate_session :: "store \<Rightarrow> string \<Rightarrow> datetime \<Rightarrow> (bool \<times> string option) \<times> store" where
  "validate_session st session_id now =
     (let sessions = load_sessions st
      in case map_of sessions session_id of
           None \<Rightarrow> ((False, None), st)
         | Some s \<Rightarrow>
             if instant now > expires_at s then
               ((False, None), save_sessions (AList.delete session_id sessions) st)
             else ((True, Some (username s)), st))"

definition logout_user :: "store \<Rightarrow> string \<Rightarrow> store" where
  "logout_user st session_id =
     (let sessions = load_sessions st
      in if map_of sessions session_id \<noteq> None
         then save_sessions (AList.delete session_id sessions) st
         else st)"

definition get_user_info :: "store \<Rightarrow> string \<Rightarrow> user option" where
  "get_user_info st uname = map_of (load_users st) uname"

subsection \<open>Vocabulary of the properties\<close>

text \<open>
  What the user collection is expected to satisfy: no username occurs twice among the items,
  and every record carries one of the two roles and a password field that is not empty.
\<close>

definition record_ok :: "user \<Rightarrow> bool" where
  "record_ok u = (role u \<in> set [''investor'', ''investee''] \<and> password u \<noteq> [])"

definition users_invariant :: "store \<Rightarrow> bool" where
  "users_invariant st =
     (distinct (map fst (load_users st)) \<and> list_all (\<lambda>(k, u). record_ok u) (load_users st))"

text \<open>
  The shape of a client identifier: the prefix, an underscore, six characters out of
  \<open>0-9A-F\<close>, an underscore, eight decimal digits.
\<close>

definition is_upper_hex :: "char \<Rightarrow> bool" where
  "is_upper_hex c = (c \<in> set ''0123456789ABCDEF'')"

definition is_lower_hex :: "char \<Rightarrow> bool" where
  "is_lower_hex c = (c \<in> set ''0123456789abcdef'')"

definition is_digit :: "char \<Rightarrow> bool" where
  "is_digit c = (c \<in> set ''0123456789'')"

definition client_id_pattern :: "string \<Rightarrow> string \<Rightarrow> bool" where
  "client_id_pattern prefix s =
     (length s = length prefix + 16 \<and>
      take (length prefix) s = prefix \<and>
      take 1 (drop (length prefix) s) = ''_'' \<and>
      list_all is_upper_hex (take 6 (drop (length prefix + 1) s)) \<and>
      take 1 (drop (length prefix + 7) s) = ''_'' \<and>
      list_all is_digit (drop (length prefix + 8) s))"

text \<open>
  The client identifier as the specification words it, to be compared with what
  \<open>generate_client_id\<close> computes: the role prefix, an underscore, the first six hexadecimal
  digits of the 128-bit hash of the username in upper case, an underscore, and the date as
  four digits of the year, two of the month and two of the day. The digits are taken from
  the numbers by division, and the characters from their codes.
\<close>

definition digit_char :: "nat \<Rightarrow> char" where
  "digit_char d = char_of (48 + d)"

definition upper_hex_char :: "nat \<Rightarrow> char" where
  "upper_hex_char d = (if d < 10 then char_of (48 + d) else char_of (55 + d))"

definition first_six_hex_upper :: "128 word \<Rightarrow> string" where
  "first_six_hex_upper w =
     [upper_hex_char (unat w div 16 ^ 31 mod 16), upper_hex_char (unat w div 16 ^ 30 mod 16),
      upper_hex_char (unat w div 16 ^ 29 mod 16), upper_hex_char (unat w div 16 ^ 28 mod 16),
      upper_hex_char (unat w div 16 ^ 27 mod 16), upper_hex_char (unat w div 16 ^ 26 mod 16)]"

definition yyyymmdd :: "datetime \<Rightarrow> string" where
  "yyyymmdd t =
     [digit_char (year t div 1000 mod 10), digit_char (year t div 100 mod 10),
      digit_char (year t div 10 mod 10), digit_char (year t mod 10),
      digit_char (month t div 10 mod 10), digit_char (month t mod 10),
      digit_char (day t div 10 mod 10), digit_char (day t mod 10)]"

definition spec_client_id :: "128 word \<Rightarrow> string \<Rightarrow> datetime \<Rightarrow> string" where
  "spec_client_id username_digest rl t =
     (if rl = ''investor'' then ''INV'' else ''IVE'') @ ''_'' @ first_six_hex_upper username_digest
       @ ''_'' @ yyyymmdd t"

text \<open>
  A reading whose calendar fields are those of a datetime with a four-digit year. The clock
  of a running system gives no other.
\<close>

definition calendar_date :: "datetime \<Rightarrow> bool" where
  "calendar_date t =
     (1000 \<le> year t \<and> year t \<le> 9999 \<and> 1 \<le> month t \<and> month t \<le> 12 \<and>
      1 \<le> day t \<and> day t \<le> 31)"

subsection \<open>Concrete stores and readings\<close>

text \<open>
  The store a new \<open>AuthManager\<close> leaves when neither file exists, a reading of the clock,
  and a store that holds one session whose expiry has passed.
\<close>

definition fresh_store :: store where
  "fresh_store = ensure_files_exist \<lparr>users_file = Missing, sessions_file = Missing\<rparr>"

definition example_now :: datetime where
  "example_now = \<lparr>instant = 63851500800000000, year = 2024, month = 5, day = 17\<rparr>"

definition later :: "int \<Rightarrow> datetime \<Rightarrow> datetime" where
  "later d t = t\<lparr>instant := instant t + d\<rparr>"

definition stale_store :: store where
  "stale_store = \<lparr>users_file = Holds [],
     sessions_file = Holds [(''tok'', \<lparr>username = ''alice'', session_created_at = 0, expires_at = 5\<rparr>)]\<rparr>"

text \<open>
  Two digest functions to run the operations on, and the registration of \<open>alice\<close> in the
  fresh store. They serve the concrete runs only: every general statement below holds for
  all digest functions. \<open>example_md5\<close> gives \<open>alice\<close> the digest MD5 gives it,
  \<open>6384e2b2184bcbf58eccf10ca7a6563c\<close>.
\<close>

definition md5_alice :: "128 word" where
  "md5_alice = 0x6384E2B2184BCBF58ECCF10CA7A6563C"

definition example_sha256 :: "string \<Rightarrow> 256 word" where
  "example_sha256 s = of_nat (length s)"

definition example_md5 :: "string \<Rightarrow> 128 word" where
  "example_md5 s = (if s = ''alice'' then md5_alice else of_nat (length s))"

definition alice_registration :: "(bool \<times> string \<times> string) \<times> store" where
  "alice_registration =
     register_user example_sha256 example_md5 ascii_title fresh_store ''alice'' ''secret1'' ''investor''
       example_now example_now example_now 7 example_now example_now"

section \<open>Loading and saving\<close>

lemma load_save_sessions [simp]: "load_sessions (save_sessions ss st) = ss"
  by (simp add: load_sessions_def save_sessions_def)

lemma load_save_users [simp]: "load_users (save_users us st) = us"
  by (simp add: load_users_def save_users_def)

lemma load_users_save_sessions [simp]: "load_users (save_sessions ss st) = load_users st"
  by (simp add: load_users_def save_sessions_def)

lemma load_sessions_save_users [simp]: "load_sessions (save_users us st) = load_sessions st"
  by (simp add: load_sessions_def save_users_def)

lemma sessions_file_save [simp]: "sessions_file (save_sessions ss st) = Holds ss"
  by (simp add: save_sessions_def)

lemma map_of_delete_same [simp]: "map_of (AList.delete k al) k = None"
  by (simp add: delete_conv')

lemma map_of_update_same [simp]: "map_of (AList.update k v al) k = Some v"
  by (simp add: update_conv')

section \<open>Sessions\<close>

lemma validate_session_unknown:
  "map_of (load_sessions st) sid = None \<Longrightarrow> validate_session st sid now = ((False, None), st)"
  by (simp add: validate_session_def)

lemma validate_session_live:
  "map_of (load_sessions st) sid = Some s \<Longrightarrow> instant now \<le> expires_at s \<Longrightarrow>
     validate_session st sid now = ((True, Some (username s)), st)"
  by (simp add: validate_session_def)

lemma validate_session_expired:
  "map_of (load_sessions st) sid = Some s \<Longrightarrow> expires_at s < instant now \<Longrightarrow>
     validate_session st sid now
       = ((False, None), save_sessions (AList.delete sid (load_sessions st)) st)"
  by (simp add: validate_session_def)

lemma create_session_stored:
  "create_session st uname uuid4 now1 T = (sid, st') \<Longrightarrow>
     map_of (load_sessions st') sid
       = Some \<lparr>username = uname, session_created_at = instant now1,
               expires_at = instant T + hours 24\<rparr>"
  by (auto simp: create_session_def Let_def)

text \<open>
  C1. A session whose expiry was computed from the reading \<open>T\<close> is stored with
  \<open>expires_at = T + 24 hours\<close>. Validating its token at any time up to and including that
  instant answers valid with the owner's name and leaves the store as it is; at any time
  strictly after it the answer is not valid, with no name.
\<close>

theorem session_expiry_boundary:
  assumes "create_session st uname uuid4 now1 T = (sid, st')"
  shows "map_of (load_sessions st') sid
           = Some \<lparr>username = uname, session_created_at = instant now1,
                   expires_at = instant T + hours 24\<rparr> \<and>
         (instant now \<le> instant T + hours 24 \<longrightarrow>
            validate_session st' sid now = ((True, Some uname), st')) \<and>
         (instant now > instant T + hours 24 \<longrightarrow>
            fst (validate_session st' sid now) = (False, None))"
  using create_session_stored [OF assms]
  by (auto simp: validate_session_live validate_session_expired)

theorem session_expiry_boundary_witness:
  "validate_session (snd (create_session fresh_store ''alice'' 7 example_now example_now))
     (fst (create_session fresh_store ''alice'' 7 example_now example_now))
     (later (hours 24) example_now)
   = ((True, Some ''alice''), snd (create_session fresh_store ''alice'' 7 example_now example_now)) \<and>
   fst (validate_session (snd (create_session fresh_store ''alice'' 7 example_now example_now))
     (fst (create_session fresh_store ''alice'' 7 example_now example_now))
     (later (hours 24 + 1) example_now)) = (False, None)"
  using session_expiry_boundary [of fresh_store "''alice''" 7 example_now example_now
      "fst (create_session fresh_store ''alice'' 7 example_now example_now)"
      "snd (create_session fresh_store ''alice'' 7 example_now example_now)"
      "later (hours 24) example_now"]
    session_expiry_boundary [of fresh_store "''alice''" 7 example_now example_now
      "fst (create_session fresh_store ''alice'' 7 example_now example_now)"
      "snd (create_session fresh_store ''alice'' 7 example_now example_now)"
      "later (hours 24 + 1) example_now"]
  by (simp add: later_def)

text \<open>
  C2. When the stored expiry of a token lies strictly before the current time,
  \<open>validate_session\<close> answers not valid with no name, and the store it leaves has the session
  file rewritten without that token. A lookup of the token in that store finds nothing, and
  validating it again, at any time, answers not valid and changes nothing.
\<close>

theorem expired_session_evicted:
  assumes "map_of (load_sessions st) sid = Some s" and "expires_at s < instant now"
  shows "validate_session st sid now
           = ((False, None), save_sessions (AList.delete sid (load_sessions st)) st) \<and>
         sessions_file (snd (validate_session st sid now))
           = Holds (AList.delete sid (load_sessions st)) \<and>
         map_of (load_sessions (snd (validate_session st sid now))) sid = None \<and>
         validate_session (snd (validate_session st sid now)) sid now'
           = ((False, None), snd (validate_session st sid now))"
  by (simp add: validate_session_expired [OF assms] validate_session_unknown)

theorem expired_session_evicted_witness:
  "validate_session stale_store ''tok'' (later 6 \<lparr>instant = 0, year = 2024, month = 5, day = 17\<rparr>)
     = ((False, None), \<lparr>users_file = Holds [], sessions_file = Holds []\<rparr>) \<and>
   map_of (load_sessions (snd (validate_session stale_store ''tok''
     (later 6 \<lparr>instant = 0, year = 2024, month = 5, day = 17\<rparr>)))) ''tok'' = None"
  using expired_session_evicted [of stale_store "''tok''"
      "\<lparr>username = ''alice'', session_created_at = 0, expires_at = 5\<rparr>"
      "later 6 \<lparr>instant = 0, year = 2024, month = 5, day = 17\<rparr>"]
  by (simp add: stale_store_def later_def load_sessions_def save_sessions_def)

text \<open>
  C6. \<open>logout_user\<close> rewrites the session file without the token when the token is stored,
  and returns the store untouched when it is not; either way the token is not stored
  afterwards, and a second call with the same token changes nothing more. No branch of the
  operation raises.
\<close>

theorem logout_idempotent:
  "(map_of (load_sessions st) sid \<noteq> None \<longrightarrow>
      logout_user st sid = save_sessions (AList.delete sid (load_sessions st)) st) \<and>
   (map_of (load_sessions st) sid = None \<longrightarrow> logout_user st sid = st) \<and>
   map_of (load_sessions (logout_user st sid)) sid = None \<and>
   logout_user (logout_user st sid) sid = logout_user st sid"
  by (auto simp: logout_user_def Let_def)

theorem logout_idempotent_witness:
  "map_of (load_sessions stale_store) ''tok'' \<noteq> None \<and>
   map_of (load_sessions stale_store) ''other'' = None \<and>
   logout_user stale_store ''tok'' = \<lparr>users_file = Holds [], sessions_file = Holds []\<rparr> \<and>
   logout_user stale_store ''other'' = stale_store \<and>
   logout_user (logout_user stale_store ''tok'') ''tok'' = logout_user stale_store ''tok''"
proof -
  have present: "map_of (load_sessions stale_store) ''tok'' \<noteq> None"
    and absent: "map_of (load_sessions stale_store) ''other'' = None"
    by (simp_all add: stale_store_def load_sessions_def)
  have "logout_user stale_store ''tok''
          = save_sessions (AList.delete ''tok'' (load_sessions stale_store)) stale_store"
    using logout_idempotent [of stale_store "''tok''"] present by blast
  then have first: "logout_user stale_store ''tok''
          = \<lparr>users_file = Holds [], sessions_file = Holds []\<rparr>"
    by (simp add: stale_store_def load_sessions_def save_sessions_def)
  have second: "logout_user stale_store ''other'' = stale_store"
    using logout_idempotent [of stale_store "''other''"] absent by blast
  have third: "logout_user (logout_user stale_store ''tok'') ''tok''
          = logout_user stale_store ''tok''"
    using logout_idempotent [of stale_store "''tok''"] by blast
  show ?thesis using present absent first second third by blast
qed

section \<open>Hexadecimal and decimal texts\<close>

lemma length_hex_str [simp]: "length (hex_str n v) = n"
  by (induction n arbitrary: v) simp_all

lemma length_hexdigest: "length (hexdigest (w :: 'a::len word)) = LENGTH('a) div 4"
  by (simp add: hexdigest_def)

lemma lower_hex_digits: "list_all (\<lambda>d. is_lower_hex (hex_digit d)) [0..<16]"
  by code_simp

lemma lower_hex_digit: "d < 16 \<Longrightarrow> is_lower_hex (hex_digit d)"
  using lower_hex_digits by (simp add: list_all_iff)

lemma upper_hex_digits: "list_all (\<lambda>d. is_upper_hex (upper_char (hex_digit d))) [0..<16]"
  by code_simp

lemma upper_hex_digit: "d < 16 \<Longrightarrow> is_upper_hex (upper_char (hex_digit d))"
  using upper_hex_digits by (simp add: list_all_iff)

lemma hex_str_lower: "list_all is_lower_hex (hex_str n v)"
  by (induction n arbitrary: v) (simp_all add: lower_hex_digit)

lemma hex_str_upper: "list_all is_upper_hex (map upper_char (hex_str n v))"
  by (induction n arbitrary: v) (simp_all add: upper_hex_digit)

lemma upper_take_hexdigest:
  "list_all is_upper_hex (upper (take 6 (hexdigest w)))"
  using hex_str_upper [of "LENGTH('a) div 4" "unat (w :: 'a::len word)"]
  by (auto simp: upper_def hexdigest_def list_all_iff dest: in_set_takeD)

lemma dec_digits: "list_all (\<lambda>d. is_digit (dec_digit d)) [0..<10]"
  by code_simp

lemma digit_dec_digit: "d < 10 \<Longrightarrow> is_digit (dec_digit d)"
  using dec_digits by (simp add: list_all_iff)

lemma dec_str_digits: "list_all is_digit (dec_str n)"
proof (induction n rule: dec_str.induct)
  case (1 n)
  show ?case
  proof (cases "n < 10")
    case True
    then show ?thesis by (simp add: digit_dec_digit)
  next
    case False
    with 1 show ?thesis by (simp add: digit_dec_digit)
  qed
qed

lemma length_dec_str_1: "n < 10 \<Longrightarrow> length (dec_str n) = 1"
  by simp

lemma length_dec_str_2: "10 \<le> n \<Longrightarrow> n < 100 \<Longrightarrow> length (dec_str n) = 2"
  using length_dec_str_1 [of "n div 10"] by (subst dec_str.simps) (simp del: dec_str.simps)

lemma length_dec_str_3: "100 \<le> n \<Longrightarrow> n < 1000 \<Longrightarrow> length (dec_str n) = 3"
  using length_dec_str_2 [of "n div 10"] by (subst dec_str.simps) (simp del: dec_str.simps)

lemma length_dec_str_4: "1000 \<le> n \<Longrightarrow> n < 10000 \<Longrightarrow> length (dec_str n) = 4"
  using length_dec_str_3 [of "n div 10"] by (subst dec_str.simps) (simp del: dec_str.simps)

lemma length_pad2: "n < 100 \<Longrightarrow> length (pad2 n) = 2"
  using length_dec_str_1 [of n] length_dec_str_2 [of n]
  by (cases "n < 10") (simp_all add: pad2_def del: dec_str.simps)

lemma pad2_digits: "list_all is_digit (pad2 n)"
  using dec_str_digits [of n] by (simp add: pad2_def is_digit_def del: dec_str.simps)

lemma strftime_Ymd_length: "calendar_date t \<Longrightarrow> length (strftime_Ymd t) = 8"
  by (simp add: strftime_Ymd_def calendar_date_def length_dec_str_4 length_pad2
      del: dec_str.simps)

lemma strftime_Ymd_digits: "list_all is_digit (strftime_Ymd t)"
  by (simp add: strftime_Ymd_def dec_str_digits pad2_digits del: dec_str.simps)

lemma generate_client_id_pattern:
  assumes "calendar_date now"
  shows "client_id_pattern (if rl = ''investor'' then ''INV'' else ''IVE'')
           (generate_client_id md5 uname rl now)"
proof -
  have l: "length (upper (take 6 (hexdigest (md5 uname)))) = 6"
    by (simp add: upper_def length_hexdigest)
  show ?thesis
    using l upper_take_hexdigest [of "md5 uname"] strftime_Ymd_length [OF assms]
      strftime_Ymd_digits [of now]
    by (simp add: client_id_pattern_def generate_client_id_def Let_def)
qed

lemma uuid_str_not_empty: "uuid_str u \<noteq> []"
  by (simp add: uuid_str_def Let_def)

lemma length_uuid_str: "length (uuid_str u) = 36"
  by (simp add: uuid_str_def Let_def length_hexdigest)

lemma hex_digit_inj: "a < 16 \<Longrightarrow> b < 16 \<Longrightarrow> hex_digit a = hex_digit b \<Longrightarrow> a = b"
proof -
  have d: "distinct ''0123456789abcdef''" by simp
  assume "a < 16" "b < 16" "hex_digit a = hex_digit b"
  then show "a = b"
    using d by (simp add: hex_digit_def nth_eq_iff_index_eq del: distinct.simps)
qed

lemma hex_str_inj: "hex_str n a = hex_str n b \<Longrightarrow> a mod 16 ^ n = b mod 16 ^ n"
proof (induction n arbitrary: a b)
  case 0
  then show ?case by simp
next
  case (Suc n)
  then have h: "hex_str n (a div 16) = hex_str n (b div 16)"
    and l: "hex_digit (a mod 16) = hex_digit (b mod 16)"
    by simp_all
  have l': "a mod 16 = b mod 16"
    using l by (rule hex_digit_inj [rotated 2]) simp_all
  have "a mod (16 * 16 ^ n) = 16 * (a div 16 mod 16 ^ n) + a mod 16"
    by (rule mod_mult2_eq)
  moreover have "b mod (16 * 16 ^ n) = 16 * (b div 16 mod 16 ^ n) + b mod 16"
    by (rule mod_mult2_eq)
  ultimately show ?case
    using Suc.IH [OF h] l' by simp
qed

lemma hexdigest_inj_256: "hexdigest (v :: 256 word) = hexdigest w \<Longrightarrow> v = w"
proof -
  assume "hexdigest v = hexdigest w"
  then have "unat v mod 16 ^ 64 = unat w mod 16 ^ 64"
    using hex_str_inj [of 64 "unat v" "unat w"] by (simp add: hexdigest_def)
  moreover have "unat v < 16 ^ 64" "unat w < 16 ^ 64"
    using unsigned_less [of v, where ?'a = nat] unsigned_less [of w, where ?'a = nat]
    by simp_all
  ultimately show "v = w" by (simp add: word_unat_eq_iff)
qed

text \<open>
  \<open>hexdigest\<close> loses nothing: two passwords have the same stored field exactly when their
  digests are equal.
\<close>

lemma hash_password_eq_iff:
  "hash_password sha256 p = hash_password sha256 q \<longleftrightarrow> sha256 p = sha256 q"
  by (auto simp: hash_password_def dest: hexdigest_inj_256)

lemma length_hash_password [simp]: "length (hash_password sha256 pw) = 64"
  by (simp add: hash_password_def length_hexdigest)

lemma hash_password_not_empty [simp]: "hash_password sha256 pw \<noteq> []"
  using length_hash_password [of sha256 pw] by (metis length_0_conv zero_neq_numeral)

lemma hash_password_lower_hex: "list_all is_lower_hex (hash_password sha256 pw)"
  by (simp add: hash_password_def hexdigest_def hex_str_lower)

text \<open>
  The stored password field is the hexadecimal text of the digest: 64 characters out of
  \<open>0-9a-f\<close>. It differs from every password that is not itself such a text.
\<close>

lemma stored_hash_differs:
  "length pw \<noteq> 64 \<or> \<not> list_all is_lower_hex pw \<Longrightarrow> hash_password sha256 pw \<noteq> pw"
  using length_hash_password [of sha256 pw] hash_password_lower_hex [of sha256 pw] by metis


lemma dec_digit_chars: "list_all (\<lambda>d. dec_digit d = digit_char d) [0..<10]"
  by code_simp

lemma dec_digit_char: "d < 10 \<Longrightarrow> dec_digit d = digit_char d"
  using dec_digit_chars by (simp add: list_all_iff)

lemma upper_hex_chars: "list_all (\<lambda>d. upper_char (hex_digit d) = upper_hex_char d) [0..<16]"
  by code_simp

lemma upper_hex_char: "d < 16 \<Longrightarrow> upper_char (hex_digit d) = upper_hex_char d"
  using upper_hex_chars by (simp add: list_all_iff)

lemma nth_hex_str: "i < n \<Longrightarrow> hex_str n v ! i = hex_digit (v div 16 ^ (n - 1 - i) mod 16)"
proof (induction n arbitrary: v i)
  case 0
  then show ?case by simp
next
  case (Suc n)
  show ?case
  proof (cases "i < n")
    case True
    have "v div 16 div 16 ^ (n - 1 - i) = v div 16 ^ (n - i)"
      using True by (simp add: div_mult2_eq [symmetric] power_Suc [symmetric] Suc_diff_Suc
          del: power_Suc)
    then show ?thesis
      using True Suc.IH [OF True, of "v div 16"] by (simp add: nth_append)
  next
    case False
    with Suc.prems have "i = n" by simp
    then show ?thesis by (simp add: nth_append)
  qed
qed

lemma upt_6: "[0..<6] = [0, 1, 2, 3, 4, 5 :: nat]"
  by code_simp

lemma take_6_hexdigest:
  "upper (take 6 (hexdigest (w :: 128 word))) = first_six_hex_upper w"
proof -
  have "take 6 (hex_str 32 v) = map (\<lambda>i. hex_digit (v div 16 ^ (31 - i) mod 16)) [0..<6]" for v
    by (rule nth_equalityI) (simp_all add: nth_hex_str)
  then show ?thesis
    by (simp add: upper_def hexdigest_def upt_6 first_six_hex_upper_def upper_hex_char)
qed

lemma dec_str_1: "n < 10 \<Longrightarrow> dec_str n = [digit_char n]"
  by (simp add: dec_digit_char)

lemma dec_str_2: "10 \<le> n \<Longrightarrow> n < 100 \<Longrightarrow> dec_str n = [digit_char (n div 10), digit_char (n mod 10)]"
  using dec_str_1 [of "n div 10"]
  by (subst dec_str.simps) (simp add: dec_digit_char del: dec_str.simps)

lemma dec_str_3:
  "100 \<le> n \<Longrightarrow> n < 1000 \<Longrightarrow>
     dec_str n = [digit_char (n div 100), digit_char (n div 10 mod 10), digit_char (n mod 10)]"
  using dec_str_2 [of "n div 10"]
  by (subst dec_str.simps) (simp add: dec_digit_char div_mult2_eq [symmetric] del: dec_str.simps)

lemma dec_str_4:
  "1000 \<le> n \<Longrightarrow> n < 10000 \<Longrightarrow>
     dec_str n = [digit_char (n div 1000), digit_char (n div 100 mod 10),
                  digit_char (n div 10 mod 10), digit_char (n mod 10)]"
  using dec_str_3 [of "n div 10"]
  by (subst dec_str.simps) (simp add: dec_digit_char div_mult2_eq [symmetric] del: dec_str.simps)

lemma digit_char_0: "digit_char 0 = CHR ''0''"
  by code_simp

lemma pad2_digits_of: "n < 100 \<Longrightarrow> pad2 n = [digit_char (n div 10), digit_char (n mod 10)]"
proof (cases "n < 10")
  case True
  then show ?thesis by (simp add: pad2_def dec_digit_char digit_char_0)
next
  case False
  assume "n < 100"
  with False show ?thesis
    using dec_str_2 [of n] by (simp add: pad2_def del: dec_str.simps)
qed

lemma strftime_Ymd_yyyymmdd: "calendar_date t \<Longrightarrow> strftime_Ymd t = yyyymmdd t"
proof -
  assume c: "calendar_date t"
  then have y: "1000 \<le> year t" "year t < 10000" and m: "month t < 100" and d: "day t < 100"
    by (simp_all add: calendar_date_def)
  have "year t div 1000 mod 10 = year t div 1000" "month t div 10 mod 10 = month t div 10"
    "day t div 10 mod 10 = day t div 10"
    using y m d by simp_all
  then show ?thesis
    by (simp add: strftime_Ymd_def yyyymmdd_def dec_str_4 [OF y] pad2_digits_of [OF m]
        pad2_digits_of [OF d] del: dec_str.simps)
qed

text \<open>
  With a four-digit year, \<open>generate_client_id\<close> computes the identifier the specification
  describes.
\<close>

lemma generate_client_id_spelled_out:
  "calendar_date now \<Longrightarrow>
     generate_client_id md5 uname rl now =
       (if rl = ''investor'' then ''INV'' else ''IVE'') @ ''_'' @ first_six_hex_upper (md5 uname)
         @ ''_'' @ yyyymmdd now"
  by (simp add: generate_client_id_def Let_def take_6_hexdigest strftime_Ymd_yyyymmdd)

lemma upper_hex_char_table:
  "list_all (\<lambda>d. upper_hex_char d = ''0123456789ABCDEF'' ! d) [0..<16]"
  by code_simp

lemma upper_hex_char_nth: "d < 16 \<Longrightarrow> upper_hex_char d = ''0123456789ABCDEF'' ! d"
  using upper_hex_char_table by (simp add: list_all_iff)

lemma unat_md5_alice: "unat md5_alice = 132283552702735894323332391932430538300"
  by (simp add: md5_alice_def)

lemma first_six_alice: "first_six_hex_upper md5_alice = ''6384E2''"
  by (simp add: first_six_hex_upper_def unat_md5_alice upper_hex_char_nth)

lemma yyyymmdd_example: "yyyymmdd example_now = ''20240517''"
  by (simp add: yyyymmdd_def example_now_def dec_digit_char [symmetric] dec_digit_def)

section \<open>Registration and authentication\<close>

lemma users_file_save_sessions [simp]: "users_file (save_sessions ss st) = users_file st"
  by (simp add: save_sessions_def)

lemma load_users_fresh [simp]: "load_users fresh_store = []"
  by (simp add: fresh_store_def ensure_files_exist_def load_users_def save_users_def
      save_sessions_def)

lemma create_session_users [simp]:
  "load_users (snd (create_session st uname uuid4 now1 now2)) = load_users st"
  by (simp add: create_session_def Let_def)

lemma register_user_succeeds:
  "map_of (load_users st) uname = None \<Longrightarrow> uname \<noteq> [] \<Longrightarrow> pw \<noteq> [] \<Longrightarrow>
   rl \<in> set [''investor'', ''investee''] \<Longrightarrow>
   register_user sha256 md5 title st uname pw rl n1 n2 n3 uuid4 n4 n5 =
     ((True, ''User registered successfully! Client ID: '' @ generate_client_id md5 uname rl n1,
       uuid_str uuid4),
      snd (create_session (save_users (AList.update uname
        \<lparr>password = hash_password sha256 pw, role = rl, full_name = title uname,
         client_id = generate_client_id md5 uname rl n1, created_at = instant n2,
         last_login = instant n3\<rparr> (load_users st)) st) uname uuid4 n4 n5))"
  by (simp add: register_user_def Let_def split_beta create_session_def)

lemma register_user_ok_iff:
  "fst (fst (register_user sha256 md5 title st uname pw rl n1 n2 n3 uuid4 n4 n5)) \<longleftrightarrow>
     map_of (load_users st) uname = None \<and> uname \<noteq> [] \<and> pw \<noteq> [] \<and>
     rl \<in> set [''investor'', ''investee'']"
  by (auto simp: register_user_def Let_def split_beta)

lemma alice_registration_ok: "fst (fst alice_registration)"
  by (simp add: alice_registration_def register_user_ok_iff)

lemma alice_registration_eq:
  "register_user example_sha256 example_md5 ascii_title fresh_store ''alice'' ''secret1'' ''investor''
       example_now example_now example_now 7 example_now example_now
   = ((True, fst (snd (fst alice_registration)), snd (snd (fst alice_registration))),
      snd alice_registration)"
  using alice_registration_ok by (simp add: alice_registration_def prod_eq_iff)

lemma alice_stored:
  "map_of (load_users (snd alice_registration)) ''alice'' =
     Some \<lparr>password = hash_password example_sha256 ''secret1'', role = ''investor'',
       full_name = ascii_title ''alice'',
       client_id = generate_client_id example_md5 ''alice'' ''investor'' example_now,
       created_at = instant example_now, last_login = instant example_now\<rparr>"
  by (simp add: alice_registration_def register_user_succeeds)

lemma calendar_date_example: "calendar_date example_now"
  by (simp add: calendar_date_def example_now_def)

text \<open>
  C3. When \<open>register_user\<close> answers ok, \<open>authenticate_user\<close> called next on the store it
  left, with the same name and password, answers ok together with the user's record: the
  one registration stored, with its last login set to the time of this call, which is also
  the record the store holds afterwards.
\<close>

theorem register_then_authenticate:
  assumes "register_user sha256 md5 title st uname pw rl n1 n2 n3 uuid4 n4 n5 = ((True, msg, sid), st')"
  shows "fst (authenticate_user sha256 st' uname pw now) =
           (True, Some \<lparr>password = hash_password sha256 pw, role = rl, full_name = title uname,
              client_id = generate_client_id md5 uname rl n1, created_at = instant n2,
              last_login = instant now\<rparr>) \<and>
         get_user_info (snd (authenticate_user sha256 st' uname pw now)) uname =
           Some \<lparr>password = hash_password sha256 pw, role = rl, full_name = title uname,
              client_id = generate_client_id md5 uname rl n1, created_at = instant n2,
              last_login = instant now\<rparr>"
proof -
  have ok: "fst (fst (register_user sha256 md5 title st uname pw rl n1 n2 n3 uuid4 n4 n5))"
    using assms by simp
  then have c: "map_of (load_users st) uname = None" "uname \<noteq> []" "pw \<noteq> []"
    "rl \<in> set [''investor'', ''investee'']"
    unfolding register_user_ok_iff by blast+
  have "map_of (load_users st') uname =
          Some \<lparr>password = hash_password sha256 pw, role = rl, full_name = title uname,
            client_id = generate_client_id md5 uname rl n1, created_at = instant n2,
            last_login = instant n3\<rparr>"
    using assms unfolding register_user_succeeds [OF c] by auto
  then show ?thesis
    by (simp add: authenticate_user_def get_user_info_def Let_def)
qed

theorem register_then_authenticate_witness:
  "fst (fst alice_registration) \<and>
   fst (authenticate_user example_sha256 (snd alice_registration) ''alice'' ''secret1''
          (later 1 example_now))
     = (True, Some \<lparr>password = hash_password example_sha256 ''secret1'', role = ''investor'',
          full_name = ascii_title ''alice'',
          client_id = generate_client_id example_md5 ''alice'' ''investor'' example_now,
          created_at = instant example_now, last_login = instant example_now + 1\<rparr>)"
  using register_then_authenticate [OF alice_registration_eq, of "later 1 example_now"]
    alice_registration_ok
  by (simp add: later_def)

text \<open>
  C7. On one store, \<open>authenticate_user\<close> with a name that is not stored and
  \<open>authenticate_user\<close> with a stored name and a password whose hash differs from the stored
  one return the same value, not ok with no record.
\<close>

theorem authenticate_failures_alike:
  assumes "map_of (load_users st) unknown = None"
    and "map_of (load_users st) known = Some u" and "password u \<noteq> hash_password sha256 wrong"
  shows "fst (authenticate_user sha256 st unknown pw now1) = (False, None) \<and>
         fst (authenticate_user sha256 st known wrong now2) = (False, None) \<and>
         fst (authenticate_user sha256 st unknown pw now1)
           = fst (authenticate_user sha256 st known wrong now2)"
  using assms by (simp add: authenticate_user_def)

theorem authenticate_failures_alike_witness:
  "map_of (load_users (snd alice_registration)) ''bob'' = None \<and>
   hash_password example_sha256 ''secret1'' \<noteq> hash_password example_sha256 ''wrongpass'' \<and>
   fst (authenticate_user example_sha256 (snd alice_registration) ''bob'' ''secret1'' example_now)
     = (False, None) \<and>
   fst (authenticate_user example_sha256 (snd alice_registration) ''alice'' ''wrongpass''
          example_now) = (False, None)"
proof -
  have unknown: "map_of (load_users (snd alice_registration)) ''bob'' = None"
    by (simp add: alice_registration_def register_user_succeeds update_conv')
  have mismatch: "hash_password example_sha256 ''secret1''
                    \<noteq> hash_password example_sha256 ''wrongpass''"
    by (simp add: hash_password_eq_iff example_sha256_def)
  show ?thesis
    using authenticate_failures_alike [OF unknown alice_stored, of example_sha256
        "''wrongpass''" "''secret1''" example_now example_now]
      unknown mismatch
    by simp
qed

text \<open>
  C10. Whenever \<open>register_user\<close> answers not ok, and whenever \<open>authenticate_user\<close>
  answers not ok, the store returned is the store given: neither file is written.
\<close>

theorem failed_operations_write_nothing:
  "(\<not> fst (fst (register_user sha256 md5 title st uname pw rl n1 n2 n3 uuid4 n4 n5)) \<longrightarrow>
      snd (register_user sha256 md5 title st uname pw rl n1 n2 n3 uuid4 n4 n5) = st) \<and>
   (\<not> fst (fst (authenticate_user sha256 st uname pw now)) \<longrightarrow>
      snd (authenticate_user sha256 st uname pw now) = st)"
  by (auto simp: register_user_def authenticate_user_def Let_def split_beta split: option.splits)

theorem failed_operations_write_nothing_witness:
  "\<not> fst (fst (register_user example_sha256 example_md5 ascii_title (snd alice_registration) ''alice''
         ''other'' ''investee'' example_now example_now example_now 8 example_now example_now)) \<and>
   snd (register_user example_sha256 example_md5 ascii_title (snd alice_registration) ''alice''
         ''other'' ''investee'' example_now example_now example_now 8 example_now example_now)
     = snd alice_registration \<and>
   \<not> fst (fst (authenticate_user example_sha256 (snd alice_registration) ''bob'' ''secret1''
         example_now)) \<and>
   snd (authenticate_user example_sha256 (snd alice_registration) ''bob'' ''secret1'' example_now)
     = snd alice_registration"
proof -
  have r: "\<not> fst (fst (register_user example_sha256 example_md5 ascii_title (snd alice_registration)
         ''alice'' ''other'' ''investee'' example_now example_now example_now 8 example_now
         example_now))"
    by (simp add: register_user_ok_iff alice_stored)
  have "map_of (load_users (snd alice_registration)) ''bob'' = None"
    by (simp add: alice_registration_def register_user_succeeds update_conv')
  then have a: "\<not> fst (fst (authenticate_user example_sha256 (snd alice_registration) ''bob''
         ''secret1'' example_now))"
    by (simp add: authenticate_user_def)
  show ?thesis
    using r a
      failed_operations_write_nothing [of example_sha256 example_md5 ascii_title "snd alice_registration"
        "''alice''" "''other''" "''investee''" example_now example_now example_now 8
        example_now example_now example_now]
      failed_operations_write_nothing [of example_sha256 example_md5 ascii_title "snd alice_registration"
        "''bob''" "''secret1''" "''investee''" example_now example_now example_now 8
        example_now example_now example_now]
    by blast
qed

text \<open>
  C4, as the checks are ordered. \<open>register_user\<close> answers not ok exactly when the username
  is empty, the password is empty, the username is already stored or the role is not one of
  the two; the session id is then empty. The message is "Username already exists" when the
  username is stored; "Username and password are required" when it is not stored and one
  of the two fields is empty; "Invalid role selected" when the username is not stored, both
  fields are non-empty and the role is not one of the two.
\<close>

theorem register_failure_cases:
  "(fst (fst (register_user sha256 md5 title st uname pw rl n1 n2 n3 uuid4 n4 n5)) = False \<longleftrightarrow>
      uname = [] \<or> pw = [] \<or> map_of (load_users st) uname \<noteq> None \<or>
      rl \<notin> set [''investor'', ''investee'']) \<and>
   (fst (fst (register_user sha256 md5 title st uname pw rl n1 n2 n3 uuid4 n4 n5)) = False \<longrightarrow>
      snd (snd (fst (register_user sha256 md5 title st uname pw rl n1 n2 n3 uuid4 n4 n5))) = []) \<and>
   (map_of (load_users st) uname \<noteq> None \<longrightarrow>
      fst (snd (fst (register_user sha256 md5 title st uname pw rl n1 n2 n3 uuid4 n4 n5)))
        = ''Username already exists'') \<and>
   (map_of (load_users st) uname = None \<and> (uname = [] \<or> pw = []) \<longrightarrow>
      fst (snd (fst (register_user sha256 md5 title st uname pw rl n1 n2 n3 uuid4 n4 n5)))
        = ''Username and password are required'') \<and>
   (map_of (load_users st) uname = None \<and> uname \<noteq> [] \<and> pw \<noteq> [] \<and>
    rl \<notin> set [''investor'', ''investee''] \<longrightarrow>
      fst (snd (fst (register_user sha256 md5 title st uname pw rl n1 n2 n3 uuid4 n4 n5)))
        = ''Invalid role selected'')"
  by (auto simp: register_user_def Let_def split_beta)

theorem register_failure_cases_witness:
  "fst (register_user example_sha256 example_md5 ascii_title (snd alice_registration) ''alice'' ''other''
     ''investee'' example_now example_now example_now 8 example_now example_now)
     = (False, ''Username already exists'', '''') \<and>
   fst (register_user example_sha256 example_md5 ascii_title fresh_store '''' ''x'' ''investor''
     example_now example_now example_now 8 example_now example_now)
     = (False, ''Username and password are required'', '''') \<and>
   fst (register_user example_sha256 example_md5 ascii_title fresh_store ''carol'' ''secret3'' ''admin''
     example_now example_now example_now 8 example_now example_now)
     = (False, ''Invalid role selected'', '''')"
proof -
  have dup: "map_of (load_users (snd alice_registration)) ''alice'' \<noteq> None"
    by (simp add: alice_stored)
  have none: "map_of (load_users fresh_store) uname = None" for uname
    by simp
  have bad: "''admin'' \<notin> set [''investor'', ''investee'']"
    by simp
  show ?thesis
    using dup none [of "''''"] none [of "''carol''"] bad
      register_failure_cases [of example_sha256 example_md5 ascii_title "snd alice_registration" "''alice''"
        "''other''" "''investee''" example_now example_now example_now 8 example_now example_now]
      register_failure_cases [of example_sha256 example_md5 ascii_title fresh_store "''''" "''x''"
        "''investor''" example_now example_now example_now 8 example_now example_now]
      register_failure_cases [of example_sha256 example_md5 ascii_title fresh_store "''carol''" "''secret3''"
        "''admin''" example_now example_now example_now 8 example_now example_now]
    by (simp add: prod_eq_iff)
qed

text \<open>
  An invalid role alone does not decide the message: with an empty username and the role
  \<open>bogus\<close>, the message is the one for missing fields.
\<close>

theorem invalid_role_message_counterexample:
  "''bogus'' \<notin> set [''investor'', ''investee''] \<and>
   fst (register_user example_sha256 example_md5 ascii_title fresh_store '''' ''x'' ''bogus''
     example_now example_now example_now 7 example_now example_now)
     = (False, ''Username and password are required'', '''') \<and>
   ''Username and password are required'' \<noteq> ''Invalid role selected''"
  by (simp add: register_user_def)

text \<open>
  C8. When \<open>register_user\<close> answers ok and the reading taken for the identifier has a
  four-digit year, the role is one of the two and the message is the success text followed
  by the client identifier: \<open>INV\<close> for an investor and \<open>IVE\<close> for an investee, an
  underscore, the first six hexadecimal digits of the MD5 of the username in upper case, an
  underscore, and the year, month and day of that reading in eight digits. The identifier
  has the shape of the pattern, it is the one stored with the user, and the session id
  returned is the text of the UUID drawn, which is not empty.
\<close>

theorem registration_client_id:
  assumes "register_user sha256 md5 title st uname pw rl n1 n2 n3 uuid4 n4 n5 = ((True, msg, sid), st')"
    and "calendar_date n1"
  shows "msg = ''User registered successfully! Client ID: '' @ spec_client_id (md5 uname) rl n1 \<and>
         (rl = ''investor'' \<or> rl = ''investee'') \<and>
         client_id_pattern (if rl = ''investor'' then ''INV'' else ''IVE'')
           (spec_client_id (md5 uname) rl n1) \<and>
         map_option client_id (get_user_info st' uname) = Some (spec_client_id (md5 uname) rl n1) \<and>
         sid = uuid_str uuid4 \<and> sid \<noteq> []"
proof -
  have ok: "fst (fst (register_user sha256 md5 title st uname pw rl n1 n2 n3 uuid4 n4 n5))"
    using assms(1) by simp
  then have c: "map_of (load_users st) uname = None" "uname \<noteq> []" "pw \<noteq> []"
    "rl \<in> set [''investor'', ''investee'']"
    unfolding register_user_ok_iff by blast+
  have g: "generate_client_id md5 uname rl n1 = spec_client_id (md5 uname) rl n1"
    using generate_client_id_spelled_out [OF assms(2)] by (simp add: spec_client_id_def)
  have m: "msg = ''User registered successfully! Client ID: '' @ generate_client_id md5 uname rl n1"
    and s: "sid = uuid_str uuid4"
    and u: "map_option client_id (get_user_info st' uname)
              = Some (generate_client_id md5 uname rl n1)"
    using assms(1) unfolding register_user_succeeds [OF c] by (auto simp: get_user_info_def)
  have r: "rl = ''investor'' \<or> rl = ''investee''"
    using c(4) by simp
  show ?thesis
    using m s u r generate_client_id_pattern [OF assms(2), of rl md5 uname] uuid_str_not_empty
    unfolding g by simp
qed

theorem registration_client_id_witness:
  "calendar_date example_now \<and>
   fst alice_registration
     = (True, ''User registered successfully! Client ID: INV_6384E2_20240517'',
        snd (snd (fst alice_registration))) \<and>
   client_id_pattern ''INV'' ''INV_6384E2_20240517'' \<and>
   map_option client_id (get_user_info (snd alice_registration) ''alice'')
     = Some ''INV_6384E2_20240517'' \<and>
   snd (snd (fst alice_registration)) \<noteq> []"
proof -
  have id: "spec_client_id (example_md5 ''alice'') ''investor'' example_now = ''INV_6384E2_20240517''"
    by (simp add: spec_client_id_def example_md5_def first_six_alice yyyymmdd_example)
  show ?thesis
    using registration_client_id [OF alice_registration_eq calendar_date_example]
      calendar_date_example alice_registration_ok
    unfolding id by (auto simp: prod_eq_iff)
qed

section \<open>The invariant of the user collection\<close>

lemma list_all_update:
  "list_all (\<lambda>(k, u). P u) al \<Longrightarrow> P v \<Longrightarrow> list_all (\<lambda>(k, u). P u) (AList.update k' v al)"
  by (induction al) auto

lemma users_invariant_save:
  "users_invariant st \<Longrightarrow> record_ok v \<Longrightarrow>
     users_invariant (save_users (AList.update k v (load_users st)) st)"
  by (simp add: users_invariant_def distinct_update list_all_update)

lemma users_invariant_sessions [simp]:
  "users_invariant (save_sessions ss st) = users_invariant st"
  by (simp add: users_invariant_def)

lemma users_invariant_lookup:
  "users_invariant st \<Longrightarrow> map_of (load_users st) k = Some u \<Longrightarrow> record_ok u"
  by (auto simp: users_invariant_def list_all_iff dest: map_of_SomeD)

lemma register_user_invariant:
  "users_invariant st \<Longrightarrow>
     users_invariant (snd (register_user sha256 md5 title st uname pw rl n1 n2 n3 uuid4 n4 n5))"
  by (auto simp: register_user_def Let_def split_beta create_session_def record_ok_def
      intro!: users_invariant_save)

lemma authenticate_user_invariant:
  "users_invariant st \<Longrightarrow> users_invariant (snd (authenticate_user sha256 st uname pw now))"
  by (auto simp: authenticate_user_def Let_def record_ok_def split: option.splits
      dest: users_invariant_lookup intro!: users_invariant_save)

lemma create_session_invariant:
  "users_invariant st \<Longrightarrow> users_invariant (snd (create_session st uname uuid4 n1 n2))"
  by (simp add: create_session_def Let_def)

lemma validate_session_invariant:
  "users_invariant st \<Longrightarrow> users_invariant (snd (validate_session st sid now))"
  by (simp add: validate_session_def Let_def split: option.splits)

lemma logout_user_invariant:
  "users_invariant st \<Longrightarrow> users_invariant (logout_user st sid)"
  by (simp add: logout_user_def Let_def)

lemma users_invariant_fresh: "users_invariant fresh_store"
  by (simp add: users_invariant_def)

text \<open>
  C5. If the user collection has no repeated username and every record in it has one of the
  two roles and a non-empty password hash, the same holds of the collection left by
  \<open>register_user\<close>, \<open>authenticate_user\<close>, \<open>create_session\<close>, \<open>validate_session\<close>
  and \<open>logout_user\<close>, whatever their arguments. \<open>get_user_info\<close> returns a value and
  no store: it writes nothing.
\<close>

theorem operations_preserve_users_invariant:
  assumes "users_invariant st"
  shows "users_invariant (snd (register_user sha256 md5 title st uname pw rl n1 n2 n3 uuid4 n4 n5)) \<and>
         users_invariant (snd (authenticate_user sha256 st uname pw now)) \<and>
         users_invariant (snd (create_session st uname uuid4 n4 n5)) \<and>
         users_invariant (snd (validate_session st sid now)) \<and>
         users_invariant (logout_user st sid)"
  using assms
  by (simp add: register_user_invariant authenticate_user_invariant create_session_invariant
      validate_session_invariant logout_user_invariant)

theorem operations_preserve_users_invariant_witness:
  "users_invariant fresh_store \<and> users_invariant (snd alice_registration) \<and>
   load_users (snd alice_registration) \<noteq> [] \<and>
   users_invariant (snd (authenticate_user example_sha256 (snd alice_registration) ''alice''
     ''secret1'' example_now))"
proof -
  have a: "users_invariant (snd alice_registration)"
    using operations_preserve_users_invariant [OF users_invariant_fresh]
    unfolding alice_registration_def by blast
  have "load_users (snd alice_registration) \<noteq> []"
    using alice_stored by auto
  then show ?thesis
    using a users_invariant_fresh operations_preserve_users_invariant [OF a] by blast
qed

end
